theory Spec2Isabelle
  imports Complex_Main
begin

section \<open>Conventions\<close>

text \<open>
  The trading core is Python. Its \<^verbatim>\<open>float\<close> values are idealised as \<^typ>\<open>real\<close>
  numbers; every place where Python raises instead of returning a number (division by a
  zero float, a missing dictionary key) is written out as a branch. Exceptions are values
  of the type \<open>error\<close>, and a function that may raise returns \<open>error + 'a\<close> with
  \<open>Inl\<close> for the exception.
\<close>

datatype error =
    ZeroDivisionError
  | ValueError string
  | KeyError string
  | TypeError string
    \<comment> \<open>raised by a membership test; the string names the type of the operand\<close>
  | AttributeError string string
    \<comment> \<open>the class of the object and the attribute it does not have\<close>
  | Raised string string
    \<comment> \<open>an exception coming from a collaborator: class name and message\<close>
  | RaisedBase string string
    \<comment> \<open>one that derives from \<^verbatim>\<open>BaseException\<close> and not from \<^verbatim>\<open>Exception\<close>,
        such as \<^verbatim>\<open>asyncio.CancelledError\<close>: class name and message\<close>

fun error_class :: "error \<Rightarrow> string" where
  "error_class ZeroDivisionError = ''ZeroDivisionError''"
| "error_class (ValueError m) = ''ValueError''"
| "error_class (KeyError k) = ''KeyError''"
| "error_class (TypeError t) = ''TypeError''"
| "error_class (AttributeError c a) = ''AttributeError''"
| "error_class (Raised c m) = c"
| "error_class (RaisedBase c m) = c"

text \<open>The exceptions that a clause \<^verbatim>\<open>except Exception\<close> catches.\<close>

fun is_Exception :: "error \<Rightarrow> bool" where
  "is_Exception (RaisedBase c m) = False"
| "is_Exception e = True"

text \<open>\<^verbatim>\<open>datetime\<close> values are counted in microseconds, the resolution of the type.\<close>

type_synonym datetime = int

definition timedelta_days :: "int \<Rightarrow> int" where
  "timedelta_days d = d * 86400000000"

section \<open>Risk manager (\<^verbatim>\<open>risk/risk_manager.py\<close>)\<close>

subsection \<open>Data\<close>

text \<open>\<^verbatim>\<open>MarketRegime\<close> is the dataclass of \<^verbatim>\<open>models/ml_models.py\<close>.\<close>

record MarketRegime =
  trend :: string
  volatility :: string
  strength :: real
  confidence :: real

record PositionSize =
  units :: real
  pos_value :: real  \<comment> \<open>the field \<^verbatim>\<open>value\<close>\<close>
  risk_amount :: real
  risk_percent :: real
  position_type :: string

record StopLevels =
  initial_stop :: real
  trailing_stop :: real
  breakeven_stop :: real
  time_stop :: datetime
  profit_stops :: "real list"

text \<open>
  The dictionary \<^verbatim>\<open>risk_params\<close> always holds the seven keys below, since the
  constructor merges the caller's dictionary over the defaults.
\<close>

record RiskParams =
  max_position_size :: real
  max_portfolio_risk :: real
  max_correlation_risk :: real
  max_sector_exposure :: real
  max_daily_drawdown :: real
  position_scaling_factor :: real
  stop_loss_atr_factor :: real

definition default_risk_params :: RiskParams where
  "default_risk_params =
     \<lparr> max_position_size = 0.02,
       max_portfolio_risk = 0.05,
       max_correlation_risk = 0.3,
       max_sector_exposure = 0.2,
       max_daily_drawdown = 0.03,
       position_scaling_factor = 0.5,
       stop_loss_atr_factor = 2.0 \<rparr>"

fun set_param :: "RiskParams \<Rightarrow> string \<times> real \<Rightarrow> RiskParams" where
  "set_param p (k, v) =
     (if k = ''max_position_size'' then p\<lparr>max_position_size := v\<rparr>
      else if k = ''max_portfolio_risk'' then p\<lparr>max_portfolio_risk := v\<rparr>
      else if k = ''max_correlation_risk'' then p\<lparr>max_correlation_risk := v\<rparr>
      else if k = ''max_sector_exposure'' then p\<lparr>max_sector_exposure := v\<rparr>
      else if k = ''max_daily_drawdown'' then p\<lparr>max_daily_drawdown := v\<rparr>
      else if k = ''position_scaling_factor'' then p\<lparr>position_scaling_factor := v\<rparr>
      else if k = ''stop_loss_atr_factor'' then p\<lparr>stop_loss_atr_factor := v\<rparr>
      else p)"

text \<open>
  The object. \<^verbatim>\<open>current_positions\<close> is a dictionary of objects of which only the
  attribute \<^verbatim>\<open>value\<close> is read; an entry is kept as the symbol with that value.
  The methods \<^verbatim>\<open>_verify_risk_limits\<close> and \<^verbatim>\<open>_get_position_type\<close> are called by
  \<^verbatim>\<open>calculate_position_size\<close> and defined nowhere in the repository: they are
  parameters, carried with the object, and each may raise.
\<close>

record RiskManager =
  capital :: real
  risk_params :: RiskParams
  current_positions :: "(string \<times> real) list"
  verify_risk_limits :: "real \<Rightarrow> real \<Rightarrow> string \<Rightarrow> error + real"
  get_position_type :: "real \<Rightarrow> error + string"

definition RiskManager_init ::
  "(real \<Rightarrow> real \<Rightarrow> string \<Rightarrow> error + real) \<Rightarrow> (real \<Rightarrow> error + string) \<Rightarrow>
   real \<Rightarrow> (string \<times> real) list \<Rightarrow> RiskManager" where
  "RiskManager_init vrl gpt cap overrides =
     \<lparr> capital = cap,
       risk_params = foldl set_param default_risk_params overrides,
       current_positions = [],
       verify_risk_limits = vrl,
       get_position_type = gpt \<rparr>"

subsection \<open>Adjustment factors\<close>

definition get_regime_adjustment :: "RiskManager \<Rightarrow> MarketRegime \<Rightarrow> real" where
  "get_regime_adjustment rm regime =
     (if volatility regime = ''HIGH'' then position_scaling_factor (risk_params rm)
      else if volatility regime = ''LOW'' \<and> trend regime = ''STRONG'' then 1.2
      else 1.0)"

definition get_signal_adjustment :: "real \<Rightarrow> real" where
  "get_signal_adjustment signal_strength =
     (if signal_strength > 0.8 then 1.2
      else if signal_strength < 0.4 then 0.8
      else 1.0)"

definition current_exposure :: "RiskManager \<Rightarrow> real" where
  "current_exposure rm = sum_list (map snd (current_positions rm))"

text \<open>The division by \<^verbatim>\<open>self.capital\<close> raises when the capital is zero.\<close>

definition get_portfolio_adjustment :: "RiskManager \<Rightarrow> error + real" where
  "get_portfolio_adjustment rm =
     (if capital rm = 0 then Inl ZeroDivisionError
      else
        let exposure_ratio = current_exposure rm / capital rm in
        if exposure_ratio > max_portfolio_risk (risk_params rm) then Inr 0.5
        else if exposure_ratio < max_portfolio_risk (risk_params rm) * 0.5 then Inr 1.2
        else Inr 1.0)"

subsection \<open>Position sizing\<close>

text \<open>
  The local variables of \<^verbatim>\<open>calculate_position_size\<close> as they stand after the line
  that computes \<^verbatim>\<open>position_value\<close>, before \<^verbatim>\<open>_verify_risk_limits\<close> is called.
\<close>

record sizing =
  l_risk_amount :: real
  l_risk_per_share :: real
  l_base_units :: real
  l_regime_factor :: real
  l_signal_factor :: real
  l_portfolio_factor :: real
  l_adjusted_units :: real
  l_position_value :: real

definition sizing_locals ::
  "RiskManager \<Rightarrow> real \<Rightarrow> real \<Rightarrow> real \<Rightarrow> MarketRegime \<Rightarrow> error + sizing" where
  "sizing_locals rm entry_price stop_loss signal_strength market_regime =
     (let risk_amt = capital rm * max_position_size (risk_params rm);
          risk_per_share = \<bar>entry_price - stop_loss\<bar>
      in
      if risk_per_share = 0 then Inl ZeroDivisionError
      else
        let base_units = risk_amt / risk_per_share;
            regime_factor = get_regime_adjustment rm market_regime;
            signal_factor = get_signal_adjustment signal_strength
        in
        case get_portfolio_adjustment rm of
          Inl e \<Rightarrow> Inl e
        | Inr portfolio_factor \<Rightarrow>
            let adjusted_units = base_units * regime_factor * signal_factor * portfolio_factor
            in Inr \<lparr> l_risk_amount = risk_amt,
                     l_risk_per_share = risk_per_share,
                     l_base_units = base_units,
                     l_regime_factor = regime_factor,
                     l_signal_factor = signal_factor,
                     l_portfolio_factor = portfolio_factor,
                     l_adjusted_units = adjusted_units,
                     l_position_value = adjusted_units * entry_price \<rparr>)"

definition calculate_position_size ::
  "RiskManager \<Rightarrow> string \<Rightarrow> real \<Rightarrow> real \<Rightarrow> real \<Rightarrow> MarketRegime \<Rightarrow> error + PositionSize" where
  "calculate_position_size rm symbol entry_price stop_loss signal_strength market_regime =
     (case sizing_locals rm entry_price stop_loss signal_strength market_regime of
        Inl e \<Rightarrow> Inl e
      | Inr l \<Rightarrow>
          (case verify_risk_limits rm (l_adjusted_units l) entry_price symbol of
             Inl e \<Rightarrow> Inl e
           | Inr final_units \<Rightarrow>
               if capital rm = 0 then Inl ZeroDivisionError
               else
                 (case get_position_type rm (l_regime_factor l) of
                    Inl e \<Rightarrow> Inl e
                  | Inr ptype \<Rightarrow>
                      Inr \<lparr> units = final_units,
                            pos_value = final_units * entry_price,
                            risk_amount = l_risk_amount l,
                            risk_percent = l_risk_amount l / capital rm,
                            position_type = ptype \<rparr>)))"

subsection \<open>Stop levels\<close>

text \<open>The first argument is the reading of \<^verbatim>\<open>datetime.now()\<close>.\<close>

definition calculate_stop_levels ::
  "RiskManager \<Rightarrow> datetime \<Rightarrow> real \<Rightarrow> real \<Rightarrow> real \<Rightarrow> MarketRegime \<Rightarrow> StopLevels" where
  "calculate_stop_levels rm now entry_price atr signal_strength market_regime =
     (let initial =
            (if volatility market_regime = ''HIGH''
             then entry_price - (atr * stop_loss_atr_factor (risk_params rm) * 1.5)
             else entry_price - (atr * stop_loss_atr_factor (risk_params rm)))
      in \<lparr> initial_stop = initial,
           trailing_stop = entry_price - (atr * 3),
           breakeven_stop = entry_price + (entry_price - initial) * 0.3,
           time_stop = now + timedelta_days 5,
           profit_stops = map (\<lambda>multiplier. entry_price + (entry_price - initial) * multiplier)
                              [1.5, 2.0, 3.0] \<rparr>)"

section \<open>Position manager (\<^verbatim>\<open>risk/risk_manager.py\<close>)\<close>

text \<open>
  A position is a dictionary. The keys \<^verbatim>\<open>current_price\<close> and \<^verbatim>\<open>unrealized_pl\<close>
  are absent until the first update. The originating signal is the caller's dictionary, of
  which the numeric entries are read.
\<close>

record Position =
  pos_symbol :: string  \<comment> \<open>the key \<^verbatim>\<open>symbol\<close>\<close>
  entry_price :: real
  pos_size :: PositionSize  \<comment> \<open>the key \<^verbatim>\<open>size\<close>\<close>
  stops :: StopLevels
  entry_time :: datetime
  signal :: "string \<rightharpoonup> real"
  market_regime :: MarketRegime
  current_price :: "real option"
  unrealized_pl :: "real option"

text \<open>
  The registry and the history hold references to the same dictionaries, and an update
  mutates the dictionary in place. The dictionaries created so far are kept in
  \<open>objects\<close>; a reference is an index into that list.
\<close>

record PositionManager =
  risk_manager :: RiskManager
  positions :: "string \<rightharpoonup> nat"
  position_history :: "nat list"
  objects :: "Position list"

definition PositionManager_init :: "RiskManager \<Rightarrow> PositionManager" where
  "PositionManager_init rm =
     \<lparr> risk_manager = rm, positions = Map.empty, position_history = [], objects = [] \<rparr>"

definition getitem :: "(string \<rightharpoonup> real) \<Rightarrow> string \<Rightarrow> error + real" where
  "getitem d k = (case d k of None \<Rightarrow> Inl (KeyError k) | Some v \<Rightarrow> Inr v)"

text \<open>
  The part of \<^verbatim>\<open>open_position\<close> that builds the dictionary. The two \<^typ>\<open>datetime\<close>
  arguments are the readings of the clock inside \<^verbatim>\<open>calculate_stop_levels\<close> and at
  \<^verbatim>\<open>entry_time\<close>.
\<close>

definition new_position ::
  "RiskManager \<Rightarrow> datetime \<Rightarrow> datetime \<Rightarrow> string \<Rightarrow> (string \<rightharpoonup> real) \<Rightarrow> MarketRegime \<Rightarrow>
   error + Position" where
  "new_position rm now_stops now_entry symb sig regime =
     (case getitem sig ''price'' of Inl e \<Rightarrow> Inl e | Inr sig_price \<Rightarrow>
     (case getitem sig ''stop_loss'' of Inl e \<Rightarrow> Inl e | Inr sig_stop_loss \<Rightarrow>
     (case getitem sig ''strength'' of Inl e \<Rightarrow> Inl e | Inr sig_strength \<Rightarrow>
     (case calculate_position_size rm symb sig_price sig_stop_loss sig_strength regime of
        Inl e \<Rightarrow> Inl e
      | Inr position_size \<Rightarrow>
     (case getitem sig ''atr'' of Inl e \<Rightarrow> Inl e | Inr sig_atr \<Rightarrow>
        (let stop_levels =
               calculate_stop_levels rm now_stops sig_price sig_atr sig_strength regime
         in Inr \<lparr> pos_symbol = symb,
                  entry_price = sig_price,
                  pos_size = position_size,
                  stops = stop_levels,
                  entry_time = now_entry,
                  signal = sig,
                  market_regime = regime,
                  current_price = None,
                  unrealized_pl = None \<rparr>))))))"

definition open_position ::
  "datetime \<Rightarrow> datetime \<Rightarrow> string \<Rightarrow> (string \<rightharpoonup> real) \<Rightarrow> MarketRegime \<Rightarrow> PositionManager \<Rightarrow>
   (error + nat) \<times> PositionManager" where
  "open_position now_stops now_entry symb sig regime pm =
     (case new_position (risk_manager pm) now_stops now_entry symb sig regime of
        Inl e \<Rightarrow> (Inl e, pm)
      | Inr position \<Rightarrow>
          let r = length (objects pm)
          in (Inr r,
              pm\<lparr> objects := objects pm @ [position],
                  positions := (positions pm)(symb \<mapsto> r),
                  position_history := position_history pm @ [r] \<rparr>))"

text \<open>
  \<^verbatim>\<open>update_position\<close> returns \<^verbatim>\<open>None\<close> for a symbol that is not in the registry,
  and the position otherwise.
\<close>

definition update_position ::
  "string \<Rightarrow> real \<Rightarrow> real \<Rightarrow> PositionManager \<Rightarrow> nat option \<times> PositionManager" where
  "update_position symb cur_price cur_atr pm =
     (case positions pm symb of
        None \<Rightarrow> (None, pm)
      | Some r \<Rightarrow>
          let position = objects pm ! r;
              new_trailing_stop =
                max (trailing_stop (stops position))
                    (cur_price - (cur_atr * stop_loss_atr_factor (risk_params (risk_manager pm))));
              position' = position
                \<lparr> stops := (stops position)\<lparr>trailing_stop := new_trailing_stop\<rparr>,
                  current_price := Some cur_price,
                  unrealized_pl :=
                    Some ((cur_price - entry_price position) * units (pos_size position)) \<rparr>
          in (Some r, pm\<lparr>objects := (objects pm)[r := position']\<rparr>))"

text \<open>A sequence of update calls \<open>(symbol, current_price, current_atr)\<close>, in order.\<close>

fun update_all :: "(string \<times> real \<times> real) list \<Rightarrow> PositionManager \<Rightarrow> PositionManager" where
  "update_all [] pm = pm"
| "update_all ((symb, cur_price, cur_atr) # calls) pm =
     update_all calls (snd (update_position symb cur_price cur_atr pm))"

text \<open>The trailing stop of the position dictionary behind a reference.\<close>

definition trailing_of :: "PositionManager \<Rightarrow> nat \<Rightarrow> real" where
  "trailing_of pm r = trailing_stop (stops (objects pm ! r))"

section \<open>Order manager and execution engine (\<^verbatim>\<open>execution/execution_engine.py\<close>)\<close>

datatype OrderType = MARKET | LIMIT | STOP | STOP_LIMIT | TRAILING_STOP

datatype OrderStatus = PENDING | SUBMITTED | PARTIAL | FILLED | CANCELLED | REJECTED

text \<open>
  The field \<^verbatim>\<open>order_type\<close> is annotated with the enumeration, and a dataclass does
  not check its annotations: the field may hold a member of \<^verbatim>\<open>OrderType\<close>, a member of
  another enumeration (its class and name are kept), or a value that is no enumeration
  member at all (the name of its type is kept). The test \<^verbatim>\<open>in OrderType\<close> is true of the
  first and false of the second; for the third it raises \<^verbatim>\<open>TypeError\<close> on Python 3.8 to
  3.11, the versions on which the package runs (\<^verbatim>\<open>python_requires\<close> asks for 3.8, and
  \<^verbatim>\<open>DataFrame.append\<close> needs a pandas older than 2.0).
\<close>

datatype order_type_value =
    Member OrderType
  | OtherEnumMember string string
  | NotAnEnum string

fun in_OrderType :: "order_type_value \<Rightarrow> error + bool" where
  "in_OrderType (Member t) = Inr True"
| "in_OrderType (OtherEnumMember c n) = Inr False"
| "in_OrderType (NotAnEnum ty) = Inl (TypeError ty)"

record Order =
  symbol :: string
  order_type :: order_type_value
  side :: string
  quantity :: real
  price :: "real option"
  stop_price :: "real option"
  time_in_force :: string
  order_id :: string
  status :: OrderStatus
  filled_quantity :: real
  average_fill_price :: real
  commission :: real
  order_notes :: string  \<comment> \<open>the field \<^verbatim>\<open>notes\<close>\<close>

text \<open>
  The three registries are dictionaries from order id to order object. An entry is kept
  as the value of the object it refers to: \<^verbatim>\<open>cancel_order\<close>, the one method that
  mutates an order, deletes the active entry before it writes the status, so the write is
  seen through \<^verbatim>\<open>orders\<close> alone.

  The methods of the order manager read the attributes \<^verbatim>\<open>broker\<close> and \<^verbatim>\<open>logger\<close>,
  which its constructor does not assign. The broker capability is a parameter of each
  method that calls it: a function from the call's argument to the call's outcome. The
  logger is a field: \<open>None\<close> while the attribute is not assigned, and otherwise the
  outcome of \<^verbatim>\<open>self.logger.error\<close>, given the prefix of the message and the exception
  that the message prints, as the exception raised or \<open>None\<close> when the call returns.
  The records written by a logger are not part of the state.
\<close>

record OrderManager =
  orders :: "string \<rightharpoonup> Order"
  filled_orders :: "string \<rightharpoonup> Order"
  active_orders :: "string \<rightharpoonup> Order"
  logger :: "(string \<Rightarrow> error \<Rightarrow> error option) option"

definition OrderManager_init :: OrderManager where
  "OrderManager_init =
     \<lparr> orders = Map.empty, filled_orders = Map.empty, active_orders = Map.empty,
       logger = None \<rparr>"

text \<open>
  The handler of \<^verbatim>\<open>submit_order\<close> and of \<^verbatim>\<open>cancel_order\<close>,
  \<^verbatim>\<open>except Exception as e: self.logger.error(...); raise\<close>, as the exception that
  leaves the method when \<open>e\<close> is raised inside \<^verbatim>\<open>try\<close>.
\<close>

definition log_and_reraise :: "OrderManager \<Rightarrow> string \<Rightarrow> error \<Rightarrow> error" where
  "log_and_reraise om prefix e =
     (if \<not> is_Exception e then e
      else
        (case logger om of
           None \<Rightarrow> AttributeError ''OrderManager'' ''logger''
         | Some log_error \<Rightarrow>
             (case log_error prefix e of
                Some e' \<Rightarrow> e'
              | None \<Rightarrow> e)))"

definition validate_order :: "Order \<Rightarrow> error + unit" where
  "validate_order order =
     (if symbol order = [] \<or> quantity order = 0
      then Inl (ValueError ''Invalid order parameters'')
      else
        (case in_OrderType (order_type order) of
           Inl e \<Rightarrow> Inl e
         | Inr is_member \<Rightarrow>
             if \<not> is_member then Inl (ValueError ''Invalid order type'')
             else Inr ()))"

definition submit_order ::
  "(Order \<Rightarrow> error + Order) \<Rightarrow> Order \<Rightarrow> OrderManager \<Rightarrow> (error + Order) \<times> OrderManager" where
  "submit_order broker_submit order om =
     (case validate_order order of
        Inl e \<Rightarrow> (Inl (log_and_reraise om ''Order submission error: '' e), om)
      | Inr _ \<Rightarrow>
          (case broker_submit order of
             Inl e \<Rightarrow> (Inl (log_and_reraise om ''Order submission error: '' e), om)
           | Inr submitted_order \<Rightarrow>
               (Inr submitted_order,
                om\<lparr> orders := (orders om)(order_id submitted_order \<mapsto> submitted_order),
                    active_orders :=
                      (active_orders om)(order_id submitted_order \<mapsto> submitted_order) \<rparr>)))"

definition cancel_order ::
  "(string \<Rightarrow> error + bool) \<Rightarrow> string \<Rightarrow> OrderManager \<Rightarrow> (error + bool) \<times> OrderManager" where
  "cancel_order broker_cancel oid om =
     (if active_orders om oid \<noteq> None then
        (case broker_cancel oid of
           Inl e \<Rightarrow> (Inl (log_and_reraise om ''Order cancellation error: '' e), om)
         | Inr _ \<Rightarrow>
             let om1 = om\<lparr>active_orders := (active_orders om)(oid := None)\<rparr>
             in (case orders om1 oid of
                   None \<Rightarrow>
                     (Inl (log_and_reraise om1 ''Order cancellation error: '' (KeyError oid)),
                      om1)
                 | Some ord \<Rightarrow>
                     (Inr True, om1\<lparr>orders := (orders om1)(oid \<mapsto> ord\<lparr>status := CANCELLED\<rparr>)\<rparr>)))
      else (Inr False, om))"

text \<open>Cancelling the same order \<open>n\<close> times in a row; the results are listed in order.\<close>

fun cancel_repeatedly ::
  "(string \<Rightarrow> error + bool) \<Rightarrow> string \<Rightarrow> nat \<Rightarrow> OrderManager \<Rightarrow>
   (error + bool) list \<times> OrderManager" where
  "cancel_repeatedly broker_cancel oid 0 om = ([], om)"
| "cancel_repeatedly broker_cancel oid (Suc n) om =
     (let (res, om1) = cancel_order broker_cancel oid om;
          (ress, om2) = cancel_repeatedly broker_cancel oid n om1
      in (res # ress, om2))"

subsection \<open>Monitoring\<close>

text \<open>
  The loop of \<^verbatim>\<open>_monitor_execution\<close> polls \<^verbatim>\<open>get_order_status\<close>, which the order
  manager does not define, calls the hook \<^verbatim>\<open>_handle_partial_fill\<close>, which the engine
  does not define, and awaits \<^verbatim>\<open>asyncio.sleep\<close>, which raises when the task is
  cancelled. All three are parameters. A \<open>tick\<close> is what one pass of the loop body meets:
  the poll raises, or it returns an order and the sleep then raises or returns; the hook
  either raises or returns.
\<close>

datatype tick =
    PollRaises error
  | Polled Order "error option"

text \<open>
  The loop ends with the order it returns, or with the exception and the order that the
  variable \<^verbatim>\<open>order\<close> holds when the exception leaves the loop. It is still polling when
  the listed ticks run out before either happens; the result is then \<open>None\<close>.
\<close>

fun monitor_loop ::
  "(Order \<Rightarrow> error option) \<Rightarrow> tick list \<Rightarrow> Order \<Rightarrow> (error \<times> Order + Order) option" where
  "monitor_loop handle_partial_fill ticks order =
     (if status order \<in> set [FILLED, CANCELLED, REJECTED] then Some (Inr order)
      else
        (case ticks of
           [] \<Rightarrow> None
         | PollRaises e # rest \<Rightarrow> Some (Inl (e, order))
         | Polled order' slept # rest \<Rightarrow>
             (case (if status order' = PARTIAL then handle_partial_fill order' else None) of
                Some e \<Rightarrow> Some (Inl (e, order'))
              | None \<Rightarrow>
                  (case slept of
                     Some e \<Rightarrow> Some (Inl (e, order'))
                   | None \<Rightarrow> monitor_loop handle_partial_fill rest order'))))"

text \<open>
  \<^verbatim>\<open>_monitor_execution\<close>: the loop inside \<^verbatim>\<open>try\<close>, and the handler
  \<^verbatim>\<open>except Exception\<close>, which logs, cancels the order and then re-raises. An exception
  that the clause does not catch leaves the method as it is, with no cancel. The logger of
  the engine is assigned by its constructor, and its call returns. The order manager
  given is its state when the handler runs.
\<close>

definition monitor_execution ::
  "(Order \<Rightarrow> error option) \<Rightarrow> tick list \<Rightarrow> (string \<Rightarrow> error + bool) \<Rightarrow>
   Order \<Rightarrow> OrderManager \<Rightarrow> ((error + Order) \<times> OrderManager) option" where
  "monitor_execution handle_partial_fill ticks broker_cancel order om =
     (case monitor_loop handle_partial_fill ticks order of
        None \<Rightarrow> None
      | Some (Inr final_order) \<Rightarrow> Some (Inr final_order, om)
      | Some (Inl (e, cur)) \<Rightarrow>
          if \<not> is_Exception e then Some (Inl e, om)
          else
            (case cancel_order broker_cancel (order_id cur) om of
               (Inl e', om') \<Rightarrow> Some (Inl e', om')
             | (Inr _, om') \<Rightarrow> Some (Inl e, om')))"

section \<open>Example inputs\<close>

text \<open>
  A risk manager with a capital of 100000, the default parameters and helper methods that
  accept the units as they are; a neutral regime; a long signal at 100; and the position
  manager that has opened one position on that signal.
\<close>

definition example_rm :: RiskManager where
  "example_rm = RiskManager_init (\<lambda>u p s. Inr u) (\<lambda>f. Inr ''full'') 100000 []"

definition example_regime :: MarketRegime where
  "example_regime =
     \<lparr> trend = ''NEUTRAL'', volatility = ''NORMAL'', strength = 0.5, confidence = 0.5 \<rparr>"

definition example_signal :: "string \<rightharpoonup> real" where
  "example_signal =
     [''price'' \<mapsto> 100, ''stop_loss'' \<mapsto> 95, ''strength'' \<mapsto> 0.5, ''atr'' \<mapsto> 5]"

definition example_pm :: PositionManager where
  "example_pm =
     snd (open_position 0 0 ''AAPL'' example_signal example_regime
            (PositionManager_init example_rm))"

text \<open>
  An order for ten shares; brokers that accept or fill what is submitted and that cancel or
  refuse to cancel; the order manager after the order was accepted, and after it was
  filled on submission; a logger whose calls return, and the order managers with that
  logger attached; a fault of a status poll; and a partial-fill hook that does nothing.
\<close>

definition example_order :: Order where
  "example_order =
     \<lparr> symbol = ''AAPL'', order_type = Member MARKET, side = ''BUY'', quantity = 10,
       price = None, stop_price = None, time_in_force = ''DAY'', order_id = ''ord-1'',
       status = PENDING, filled_quantity = 0, average_fill_price = 0, commission = 0,
       order_notes = [] \<rparr>"

definition broker_accepts :: "Order \<Rightarrow> error + Order" where
  "broker_accepts order = Inr (order\<lparr>status := SUBMITTED\<rparr>)"

definition broker_fills :: "Order \<Rightarrow> error + Order" where
  "broker_fills order = Inr (order\<lparr>status := FILLED, filled_quantity := quantity order\<rparr>)"

definition broker_cancels :: "string \<Rightarrow> error + bool" where
  "broker_cancels oid = Inr True"

definition broker_cancel_fails :: "string \<Rightarrow> error + bool" where
  "broker_cancel_fails oid = Inl (Raised ''BrokerError'' ''cancel rejected'')"

definition example_om :: OrderManager where
  "example_om = snd (submit_order broker_accepts example_order OrderManager_init)"

definition example_om_filled :: OrderManager where
  "example_om_filled = snd (submit_order broker_fills example_order OrderManager_init)"

definition quiet_logger :: "string \<Rightarrow> error \<Rightarrow> error option" where
  "quiet_logger prefix e = None"

definition logged_om_init :: OrderManager where
  "logged_om_init = OrderManager_init\<lparr>logger := Some quiet_logger\<rparr>"

definition logged_om :: OrderManager where
  "logged_om = example_om\<lparr>logger := Some quiet_logger\<rparr>"

definition poll_fault :: error where
  "poll_fault = Raised ''ConnectionError'' ''status poll failed''"

definition no_hook :: "Order \<Rightarrow> error option" where
  "no_hook order = None"

section \<open>Properties of position sizing and stop levels\<close>

lemma sizing_locals_zero_distance:
  "entry = stop \<Longrightarrow> sizing_locals rm entry stop s regime = Inl ZeroDivisionError"
  by (simp add: sizing_locals_def)

lemma sizing_locals_Inr:
  assumes "sizing_locals rm entry stop s regime = Inr l"
  shows "entry \<noteq> stop \<and> capital rm \<noteq> 0 \<and>
         l_risk_amount l = capital rm * max_position_size (risk_params rm) \<and>
         l_risk_per_share l = \<bar>entry - stop\<bar> \<and>
         l_base_units l = l_risk_amount l / l_risk_per_share l \<and>
         l_regime_factor l = get_regime_adjustment rm regime \<and>
         l_signal_factor l = get_signal_adjustment s \<and>
         get_portfolio_adjustment rm = Inr (l_portfolio_factor l) \<and>
         l_adjusted_units l =
           l_base_units l * l_regime_factor l * l_signal_factor l * l_portfolio_factor l"
  using assms
  by (auto simp: sizing_locals_def Let_def get_portfolio_adjustment_def
           split: if_splits sum.splits)

lemma sizing_locals_returns:
  assumes "entry \<noteq> stop" and "capital rm \<noteq> 0"
  shows "\<exists>l. sizing_locals rm entry stop s regime = Inr l"
  using assms
  by (simp add: sizing_locals_def Let_def get_portfolio_adjustment_def)

text \<open>
  Claim C1 (scenario A). With a capital of 100000, the default risk parameters, an entry
  price of 50, a stop at 48, a signal strength of 0.5, a regime whose trend and volatility
  are both \<open>NORMAL\<close>, and an exposure ratio below half of \<open>max_portfolio_risk\<close>,
  \<^verbatim>\<open>calculate_position_size\<close> computes a risk amount of 2000, 1000 base units, a regime
  factor and a signal factor of 1.0 and a portfolio factor of 1.2, hence 1200 units; these
  1200 units are what it hands to \<^verbatim>\<open>_verify_risk_limits\<close>, and the size it returns
  carries the risk amount 2000.
\<close>

theorem scenario_A:
  assumes "capital rm = 100000" and "risk_params rm = default_risk_params"
    and "trend regime = ''NORMAL''" and "volatility regime = ''NORMAL''"
    and "current_exposure rm / capital rm < max_portfolio_risk (risk_params rm) * 0.5"
  shows "sizing_locals rm 50 48 0.5 regime =
           Inr \<lparr> l_risk_amount = 2000, l_risk_per_share = 2, l_base_units = 1000,
                 l_regime_factor = 1.0, l_signal_factor = 1.0, l_portfolio_factor = 1.2,
                 l_adjusted_units = 1200, l_position_value = 60000 \<rparr>
         \<and> calculate_position_size rm symb 50 48 0.5 regime =
           (case verify_risk_limits rm 1200 50 symb of
              Inl e \<Rightarrow> Inl e
            | Inr final_units \<Rightarrow>
                (case get_position_type rm 1.0 of
                   Inl e \<Rightarrow> Inl e
                 | Inr ptype \<Rightarrow>
                     Inr \<lparr> units = final_units, pos_value = final_units * 50,
                           risk_amount = 2000, risk_percent = 0.02,
                           position_type = ptype \<rparr>))"
proof -
  have locals: "sizing_locals rm 50 48 0.5 regime =
           Inr \<lparr> l_risk_amount = 2000, l_risk_per_share = 2, l_base_units = 1000,
                 l_regime_factor = 1.0, l_signal_factor = 1.0, l_portfolio_factor = 1.2,
                 l_adjusted_units = 1200, l_position_value = 60000 \<rparr>"
    using assms
    by (simp add: sizing_locals_def default_risk_params_def get_regime_adjustment_def
          get_signal_adjustment_def get_portfolio_adjustment_def Let_def)
  have result: "calculate_position_size rm symb 50 48 0.5 regime =
           (case verify_risk_limits rm 1200 50 symb of
              Inl e \<Rightarrow> Inl e
            | Inr final_units \<Rightarrow>
                (case get_position_type rm 1.0 of
                   Inl e \<Rightarrow> Inl e
                 | Inr ptype \<Rightarrow>
                     Inr \<lparr> units = final_units, pos_value = final_units * 50,
                           risk_amount = 2000, risk_percent = 0.02,
                           position_type = ptype \<rparr>))"
    unfolding calculate_position_size_def locals using assms(1)
    by (simp cong: sum.case_cong)
  from locals result show ?thesis ..
qed

text \<open>
  Scenario A with no position held and a risk-limit check that accepts the units as they
  are: the size returned has 1200 units.
\<close>

theorem scenario_A_witness:
  "sizing_locals (RiskManager_init (\<lambda>u p s. Inr u) (\<lambda>f. Inr ''full'') 100000 []) 50 48 0.5
      \<lparr> trend = ''NORMAL'', volatility = ''NORMAL'', strength = 0.5, confidence = 0.5 \<rparr> =
     Inr \<lparr> l_risk_amount = 2000, l_risk_per_share = 2, l_base_units = 1000,
           l_regime_factor = 1.0, l_signal_factor = 1.0, l_portfolio_factor = 1.2,
           l_adjusted_units = 1200, l_position_value = 60000 \<rparr>
   \<and> calculate_position_size (RiskManager_init (\<lambda>u p s. Inr u) (\<lambda>f. Inr ''full'') 100000 [])
       ''AAPL'' 50 48 0.5
       \<lparr> trend = ''NORMAL'', volatility = ''NORMAL'', strength = 0.5, confidence = 0.5 \<rparr> =
     Inr \<lparr> units = 1200, pos_value = 60000, risk_amount = 2000, risk_percent = 0.02,
           position_type = ''full'' \<rparr>"
  using scenario_A [of "RiskManager_init (\<lambda>u p s. Inr u) (\<lambda>f. Inr ''full'') 100000 []"
      "\<lparr> trend = ''NORMAL'', volatility = ''NORMAL'', strength = 0.5, confidence = 0.5 \<rparr>"
      "''AAPL''"]
  by (simp add: RiskManager_init_def current_exposure_def default_risk_params_def)

text \<open>
  Claim C3. Whenever \<^verbatim>\<open>calculate_position_size\<close> returns a size, its risk amount is
  the capital times \<open>max_position_size\<close>, whatever the prices, the signal strength, the
  regime and the exposure; the three adjustment factors enter the units only, which are
  what \<^verbatim>\<open>_verify_risk_limits\<close> makes of base units times the factors. A size is
  returned whenever the entry differs from the stop, the capital is not zero and the two
  helper methods return.
\<close>

theorem risk_amount_invariant:
  "(\<forall>ps. calculate_position_size rm symb entry stop s regime = Inr ps \<longrightarrow>
      risk_amount ps = capital rm * max_position_size (risk_params rm) \<and>
      (\<exists>pf. get_portfolio_adjustment rm = Inr pf \<and>
         verify_risk_limits rm
           (capital rm * max_position_size (risk_params rm) / \<bar>entry - stop\<bar>
              * get_regime_adjustment rm regime * get_signal_adjustment s * pf)
           entry symb = Inr (units ps)))
   \<and> (entry \<noteq> stop \<and> capital rm \<noteq> 0 \<and>
       (\<forall>u. \<exists>v. verify_risk_limits rm u entry symb = Inr v) \<and>
       (\<exists>t. get_position_type rm (get_regime_adjustment rm regime) = Inr t) \<longrightarrow>
       (\<exists>ps. calculate_position_size rm symb entry stop s regime = Inr ps))"
proof (intro conjI allI impI)
  fix ps
  assume ret: "calculate_position_size rm symb entry stop s regime = Inr ps"
  then obtain l where l: "sizing_locals rm entry stop s regime = Inr l"
    by (auto simp: calculate_position_size_def split: sum.splits)
  note facts = sizing_locals_Inr [OF l]
  from ret l have ra: "risk_amount ps = l_risk_amount l"
    and un: "verify_risk_limits rm (l_adjusted_units l) entry symb = Inr (units ps)"
    by (auto simp: calculate_position_size_def split: sum.splits if_splits)
  from ra facts show "risk_amount ps = capital rm * max_position_size (risk_params rm)"
    by simp
  from un facts
  show "\<exists>pf. get_portfolio_adjustment rm = Inr pf \<and>
         verify_risk_limits rm
           (capital rm * max_position_size (risk_params rm) / \<bar>entry - stop\<bar>
              * get_regime_adjustment rm regime * get_signal_adjustment s * pf)
           entry symb = Inr (units ps)"
    by auto
next
  assume h: "entry \<noteq> stop \<and> capital rm \<noteq> 0 \<and>
       (\<forall>u. \<exists>v. verify_risk_limits rm u entry symb = Inr v) \<and>
       (\<exists>t. get_position_type rm (get_regime_adjustment rm regime) = Inr t)"
  then obtain l where l: "sizing_locals rm entry stop s regime = Inr l"
    using sizing_locals_returns by blast
  from h obtain v where v: "verify_risk_limits rm (l_adjusted_units l) entry symb = Inr v"
    by blast
  from h obtain t where t: "get_position_type rm (get_regime_adjustment rm regime) = Inr t"
    by blast
  from sizing_locals_Inr [OF l] have "l_regime_factor l = get_regime_adjustment rm regime"
    by simp
  with l v t h show "\<exists>ps. calculate_position_size rm symb entry stop s regime = Inr ps"
    by (simp add: calculate_position_size_def)
qed

text \<open>
  A strong signal (factor 1.2) in a regime of high volatility (factor 0.5) with no position
  held (factor 1.2): a size is returned, and its risk amount is still 100000 times 0.02.
\<close>

theorem risk_amount_invariant_witness:
  "\<not> isl (calculate_position_size (RiskManager_init (\<lambda>u p s. Inr u) (\<lambda>f. Inr ''full'') 100000 []) ''AAPL'' 50 48 0.9
         \<lparr> trend = ''BULLISH'', volatility = ''HIGH'', strength = 0.5, confidence = 0.5 \<rparr>)
   \<and> risk_amount (projr (calculate_position_size (RiskManager_init (\<lambda>u p s. Inr u) (\<lambda>f. Inr ''full'') 100000 []) ''AAPL'' 50 48 0.9
         \<lparr> trend = ''BULLISH'', volatility = ''HIGH'', strength = 0.5, confidence = 0.5 \<rparr>))
       = 100000 * 0.02"
proof -
  note inv = risk_amount_invariant [of "RiskManager_init (\<lambda>u p s. Inr u) (\<lambda>f. Inr ''full'') 100000 []" "''AAPL''" 50 48 "0.9"
      "\<lparr> trend = ''BULLISH'', volatility = ''HIGH'', strength = 0.5, confidence = 0.5 \<rparr>"]
  have "\<exists>ps. calculate_position_size (RiskManager_init (\<lambda>u p s. Inr u) (\<lambda>f. Inr ''full'') 100000 []) ''AAPL'' 50 48 0.9
         \<lparr> trend = ''BULLISH'', volatility = ''HIGH'', strength = 0.5, confidence = 0.5 \<rparr>
       = Inr ps"
    using inv by (simp add: RiskManager_init_def)
  then obtain ps where ps: "calculate_position_size (RiskManager_init (\<lambda>u p s. Inr u) (\<lambda>f. Inr ''full'') 100000 []) ''AAPL'' 50 48 0.9
         \<lparr> trend = ''BULLISH'', volatility = ''HIGH'', strength = 0.5, confidence = 0.5 \<rparr>
       = Inr ps" ..
  with inv have "risk_amount ps = capital (RiskManager_init (\<lambda>u p s. Inr u) (\<lambda>f. Inr ''full'') 100000 []) * max_position_size (risk_params (RiskManager_init (\<lambda>u p s. Inr u) (\<lambda>f. Inr ''full'') 100000 []))"
    by blast
  then have "risk_amount ps = 100000 * 0.02"
    by (simp add: RiskManager_init_def default_risk_params_def)
  with ps show ?thesis by simp
qed

text \<open>
  Claim C5, as the specification states it, at an entry of 50 with the stop at 50: the call
  fails, but the exception is not an \<open>InvalidStopDistance\<close>.
\<close>

theorem zero_distance_not_InvalidStopDistance:
  "isl (calculate_position_size (RiskManager_init (\<lambda>u p s. Inr u) (\<lambda>f. Inr ''full'') 100000 []) ''AAPL'' 50 50 0.5
          \<lparr> trend = ''NEUTRAL'', volatility = ''NORMAL'', strength = 0.5, confidence = 0.5 \<rparr>)
   \<and> error_class (projl (calculate_position_size (RiskManager_init (\<lambda>u p s. Inr u) (\<lambda>f. Inr ''full'') 100000 []) ''AAPL'' 50 50 0.5
          \<lparr> trend = ''NEUTRAL'', volatility = ''NORMAL'', strength = 0.5, confidence = 0.5 \<rparr>))
       \<noteq> ''InvalidStopDistance''"
  by (simp add: calculate_position_size_def sizing_locals_def)

text \<open>
  Claim C5, amended. The risk distance is an absolute value, so it is never negative. When
  it is zero, \<^verbatim>\<open>calculate_position_size\<close> makes no check of its own: the division of
  the risk amount by the distance raises \<open>ZeroDivisionError\<close>, before any factor is
  computed and before the helper methods are called, and no size is returned. The
  distance is never clamped: whenever the sizing gets past the division, the distance used
  is \<open>\<bar>entry - stop\<bar>\<close> itself, it is positive, and the base units are the risk amount
  divided by it.
\<close>

theorem zero_distance_raises_ZeroDivisionError:
  "(\<bar>entry - stop\<bar> \<le> 0 \<longrightarrow>
      sizing_locals rm entry stop s regime = Inl ZeroDivisionError \<and>
      calculate_position_size rm symb entry stop s regime = Inl ZeroDivisionError)
   \<and> (\<forall>l. sizing_locals rm entry stop s regime = Inr l \<longrightarrow>
         l_risk_per_share l = \<bar>entry - stop\<bar> \<and> 0 < l_risk_per_share l \<and>
         l_base_units l = capital rm * max_position_size (risk_params rm) / \<bar>entry - stop\<bar>)"
proof (intro conjI allI impI)
  assume "\<bar>entry - stop\<bar> \<le> 0"
  then have eq: "entry = stop" by simp
  show "sizing_locals rm entry stop s regime = Inl ZeroDivisionError"
    using eq by (rule sizing_locals_zero_distance)
  then show "calculate_position_size rm symb entry stop s regime = Inl ZeroDivisionError"
    by (simp add: calculate_position_size_def)
next
  fix l
  assume l: "sizing_locals rm entry stop s regime = Inr l"
  note facts = sizing_locals_Inr [OF l]
  from facts show "l_risk_per_share l = \<bar>entry - stop\<bar>" by simp
  from facts show "0 < l_risk_per_share l" by simp
  from facts show "l_base_units l =
      capital rm * max_position_size (risk_params rm) / \<bar>entry - stop\<bar>" by simp
qed

theorem zero_distance_raises_ZeroDivisionError_witness:
  "\<bar>50 - 50 :: real\<bar> \<le> 0 \<and>
   calculate_position_size (RiskManager_init (\<lambda>u p s. Inr u) (\<lambda>f. Inr ''full'') 100000 []) ''AAPL'' 50 50 0.5
       \<lparr> trend = ''NEUTRAL'', volatility = ''NORMAL'', strength = 0.5, confidence = 0.5 \<rparr> =
     Inl ZeroDivisionError"
  using zero_distance_raises_ZeroDivisionError
      [of 50 50 "RiskManager_init (\<lambda>u p s. Inr u) (\<lambda>f. Inr ''full'') 100000 []" "0.5"
      "\<lparr> trend = ''NEUTRAL'', volatility = ''NORMAL'', strength = 0.5, confidence = 0.5 \<rparr>"
      "''AAPL''"]
  by simp

text \<open>
  Claim C7 (scenario B). For an entry price of 100, an ATR of 5, a
  \<open>stop_loss_atr_factor\<close> of 2.0 and a regime of \<open>HIGH\<close> volatility,
  \<^verbatim>\<open>calculate_stop_levels\<close> returns the initial stop 85, which is the entry less the ATR
  times the factor scaled by 1.5, the trailing stop 85, the breakeven stop 104.5 and the
  profit stops 122.5, 130 and 145, in ascending order; the time stop is five days after the
  reading of the clock.
\<close>

theorem scenario_B:
  assumes "stop_loss_atr_factor (risk_params rm) = 2.0" and "volatility regime = ''HIGH''"
  shows "calculate_stop_levels rm now 100 5 s regime =
           \<lparr> initial_stop = 85, trailing_stop = 85, breakeven_stop = 104.5,
             time_stop = now + timedelta_days 5, profit_stops = [122.5, 130, 145] \<rparr>
         \<and> initial_stop (calculate_stop_levels rm now 100 5 s regime) = 100 - 5 * (2.0 * 1.5)
         \<and> sorted (profit_stops (calculate_stop_levels rm now 100 5 s regime))"
  using assms by (simp add: calculate_stop_levels_def)

theorem scenario_B_witness:
  "calculate_stop_levels (RiskManager_init (\<lambda>u p s. Inr u) (\<lambda>f. Inr ''full'') 100000 []) 1700000000000000 100 5 0.5
      \<lparr> trend = ''BEARISH'', volatility = ''HIGH'', strength = 0.5, confidence = 0.5 \<rparr> =
     \<lparr> initial_stop = 85, trailing_stop = 85, breakeven_stop = 104.5,
       time_stop = 1700432000000000, profit_stops = [122.5, 130, 145] \<rparr>"
  using scenario_B
      [of "RiskManager_init (\<lambda>u p s. Inr u) (\<lambda>f. Inr ''full'') 100000 []"
      "\<lparr> trend = ''BEARISH'', volatility = ''HIGH'', strength = 0.5, confidence = 0.5 \<rparr>"
      1700000000000000 "0.5"]
  by (simp add: RiskManager_init_def default_risk_params_def timedelta_days_def)

text \<open>
  Claim C10. For a regime whose trend is one of \<open>BULLISH\<close>, \<open>BEARISH\<close> and
  \<open>NEUTRAL\<close> and whose volatility is not \<open>HIGH\<close>, the regime adjustment is exactly
  1.0: the branch that returns 1.2 asks for the trend \<open>STRONG\<close>, which is none of the
  three.
\<close>

theorem regime_adjustment_documented_trends:
  assumes "trend regime \<in> {''BULLISH'', ''BEARISH'', ''NEUTRAL''}"
    and "volatility regime \<noteq> ''HIGH''"
  shows "get_regime_adjustment rm regime = 1.0"
  using assms by (auto simp: get_regime_adjustment_def)

text \<open>A bullish regime of low volatility gets the factor 1.0, not the boost.\<close>

theorem regime_adjustment_documented_trends_witness:
  "get_regime_adjustment (RiskManager_init (\<lambda>u p s. Inr u) (\<lambda>f. Inr ''full'') 100000 [])
      \<lparr> trend = ''BULLISH'', volatility = ''LOW'', strength = 0.9, confidence = 0.9 \<rparr> = 1.0"
  using regime_adjustment_documented_trends
      [of "\<lparr> trend = ''BULLISH'', volatility = ''LOW'', strength = 0.9, confidence = 0.9 \<rparr>"
          "RiskManager_init (\<lambda>u p s. Inr u) (\<lambda>f. Inr ''full'') 100000 []"]
  by simp

section \<open>Properties of the position manager\<close>

lemma update_position_frame:
  "risk_manager (snd (update_position symb p a pm)) = risk_manager pm
   \<and> positions (snd (update_position symb p a pm)) = positions pm
   \<and> position_history (snd (update_position symb p a pm)) = position_history pm
   \<and> length (objects (snd (update_position symb p a pm))) = length (objects pm)"
  by (simp add: update_position_def Let_def split: option.splits)

lemma update_position_trailing_mono:
  "trailing_of pm r \<le> trailing_of (snd (update_position symb p a pm)) r"
proof (cases "positions pm symb")
  case None
  then show ?thesis by (simp add: update_position_def)
next
  case (Some r')
  show ?thesis
  proof (cases "r' = r \<and> r < length (objects pm)")
    case True
    with Some show ?thesis
      by (simp add: update_position_def trailing_of_def Let_def)
  next
    case False
    have upd: "\<And>x. (objects pm)[r' := x] ! r = objects pm ! r"
    proof (cases "r' = r")
      case True
      with False have "length (objects pm) \<le> r'" by simp
      then show "\<And>x. (objects pm)[r' := x] ! r = objects pm ! r"
        by (simp add: list_update_beyond)
    next
      case False
      then show "\<And>x. (objects pm)[r' := x] ! r = objects pm ! r" by simp
    qed
    have "(objects (snd (update_position symb p a pm))) ! r = objects pm ! r"
      using Some by (simp add: update_position_def Let_def upd)
    then show ?thesis by (simp add: trailing_of_def)
  qed
qed

lemma update_position_trailing_eq:
  assumes "positions pm symb = Some r" and "r < length (objects pm)"
  shows "update_position symb p a pm =
           (Some r, snd (update_position symb p a pm))
         \<and> trailing_of (snd (update_position symb p a pm)) r =
           max (trailing_of pm r)
               (p - a * stop_loss_atr_factor (risk_params (risk_manager pm)))"
  using assms by (simp add: update_position_def trailing_of_def Let_def)

lemma update_all_frame:
  "risk_manager (update_all calls pm) = risk_manager pm
   \<and> positions (update_all calls pm) = positions pm
   \<and> position_history (update_all calls pm) = position_history pm
   \<and> length (objects (update_all calls pm)) = length (objects pm)"
proof (induction calls arbitrary: pm)
  case Nil
  show ?case by simp
next
  case (Cons c calls)
  obtain symb p a where c: "c = (symb, p, a)" by (cases c)
  show ?case
    unfolding c update_all.simps
    using Cons.IH [of "snd (update_position symb p a pm)"]
          update_position_frame [of symb p a pm]
    by simp
qed

lemma update_all_trailing_mono:
  "trailing_of pm r \<le> trailing_of (update_all calls pm) r"
proof (induction calls arbitrary: pm)
  case Nil
  show ?case by simp
next
  case (Cons c calls)
  obtain symb p a where c: "c = (symb, p, a)" by (cases c)
  have "trailing_of pm r \<le> trailing_of (snd (update_position symb p a pm)) r"
    by (rule update_position_trailing_mono)
  also have "\<dots> \<le> trailing_of (update_all calls (snd (update_position symb p a pm))) r"
    by (rule Cons.IH)
  finally show ?case by (simp add: c)
qed

lemma update_all_append:
  "update_all (xs @ ys) pm = update_all ys (update_all xs pm)"
  by (induction xs arbitrary: pm) auto

lemma example_pm_eval:
  "positions example_pm ''AAPL'' = Some 0" "0 < length (objects example_pm)"
  "length (objects example_pm) = 1"
  "stop_loss_atr_factor (risk_params (risk_manager example_pm)) = 2"
  "trailing_of example_pm 0 = 85"
  "position_history example_pm = [0]"
  by (simp_all add: example_pm_def open_position_def new_position_def getitem_def
    PositionManager_init_def RiskManager_init_def calculate_position_size_def
    sizing_locals_def get_regime_adjustment_def get_signal_adjustment_def
    get_portfolio_adjustment_def current_exposure_def default_risk_params_def
    calculate_stop_levels_def Let_def example_rm_def example_regime_def
    example_signal_def trailing_of_def)

text \<open>
  Claim C4. For a position in the registry and any sequence of update calls made before,
  on this or any other symbol and at any prices, an update of the position returns it and
  sets its trailing stop to the greater of the previous trailing stop and
  \<open>current_price - current_atr * stop_loss_atr_factor\<close>; and the trailing stop after any
  sequence of calls is at most the trailing stop after any longer sequence.
\<close>

theorem trailing_stop_ratchet:
  assumes "positions pm symb = Some r" and "r < length (objects pm)"
  shows "fst (update_position symb p a (update_all before pm)) = Some r
       \<and> trailing_of (snd (update_position symb p a (update_all before pm))) r =
           max (trailing_of (update_all before pm) r)
               (p - a * stop_loss_atr_factor (risk_params (risk_manager pm)))
       \<and> trailing_of (update_all before pm) r
           \<le> trailing_of (update_all (before @ later) pm) r"
proof -
  let ?pm = "update_all before pm"
  have pos: "positions ?pm symb = Some r" and len: "r < length (objects ?pm)"
    and rm: "risk_manager ?pm = risk_manager pm"
    using assms update_all_frame [of before pm] by simp_all
  from update_position_trailing_eq [OF pos len, of p a]
  have step: "fst (update_position symb p a ?pm) = Some r"
    and eq: "trailing_of (snd (update_position symb p a ?pm)) r =
           max (trailing_of ?pm r)
               (p - a * stop_loss_atr_factor (risk_params (risk_manager pm)))"
    by (simp_all add: rm) (metis fst_conv)
  have mono: "trailing_of ?pm r \<le> trailing_of (update_all (before @ later) pm) r"
    unfolding update_all_append by (rule update_all_trailing_mono)
  from step eq mono show ?thesis by blast
qed



text \<open>
  The position opened at 100 starts with the trailing stop 85; an update at 110 raises it to
  100, and a later update at 90 leaves it at 100.
\<close>

theorem trailing_stop_ratchet_witness:
  "positions example_pm ''AAPL'' = Some 0 \<and> 0 < length (objects example_pm)
   \<and> trailing_of example_pm 0 = 85
   \<and> trailing_of (update_all [(''AAPL'', 110, 5)] example_pm) 0 = 100
   \<and> trailing_of (snd (update_position ''AAPL'' 90 5
         (update_all [(''AAPL'', 110, 5)] example_pm))) 0 = 100"
proof -
  note ev = example_pm_eval
  have first: "trailing_of (update_all [(''AAPL'', 110, 5)] example_pm) 0 = 100"
    using trailing_stop_ratchet [OF ev(1) ev(2), of 110 5 "[]" "[]"] by (simp add: ev)
  have second: "trailing_of (snd (update_position ''AAPL'' 90 5
         (update_all [(''AAPL'', 110, 5)] example_pm))) 0 = 100"
    using trailing_stop_ratchet [OF ev(1) ev(2), of 90 5 "[(''AAPL'', 110, 5)]" "[]"]
    using first by (simp add: ev)
  from ev first second show ?thesis by blast
qed




section \<open>Properties of the order manager\<close>

lemma log_and_reraise_returns:
  "logger om = Some log_error \<Longrightarrow> log_error prefix e = None \<Longrightarrow>
   log_and_reraise om prefix e = e"
  by (simp add: log_and_reraise_def)

lemma log_and_reraise_no_logger:
  "logger om = None \<Longrightarrow> is_Exception e \<Longrightarrow>
   log_and_reraise om prefix e = AttributeError ''OrderManager'' ''logger''"
  by (simp add: log_and_reraise_def)

lemma validate_order_cases:
  "validate_order order =
     (if symbol order = [] \<or> quantity order = 0
      then Inl (ValueError ''Invalid order parameters'')
      else (case order_type order of
              Member t \<Rightarrow> Inr ()
            | OtherEnumMember c n \<Rightarrow> Inl (ValueError ''Invalid order type'')
            | NotAnEnum ty \<Rightarrow> Inl (TypeError ty)))"
  by (simp add: validate_order_def split: order_type_value.splits)

lemma submit_order_fails:
  "validate_order order = Inl e \<or> (validate_order order = Inr () \<and> broker_submit order = Inl e)
   \<Longrightarrow> isl (fst (submit_order broker_submit order om))
       \<and> snd (submit_order broker_submit order om) = om
       \<and> fst (submit_order broker_submit order om) =
           Inl (log_and_reraise om ''Order submission error: '' e)"
  by (auto simp: submit_order_def)

lemma example_om_eval:
  "orders example_om ''ord-1'' = Some (example_order\<lparr>status := SUBMITTED\<rparr>)"
  "active_orders example_om ''ord-1'' = Some (example_order\<lparr>status := SUBMITTED\<rparr>)"
  "order_id example_order = ''ord-1''"
  by (simp_all add: example_om_def submit_order_def validate_order_def example_order_def
        broker_accepts_def OrderManager_init_def)

text \<open>
  Claim C9, as the specification states it, at an order for minus five shares: the quantity
  is not greater than zero, yet validation passes, the broker is called and the order is
  registered as active.
\<close>

theorem negative_quantity_accepted:
  "\<not> 0 < quantity (example_order\<lparr>quantity := - 5\<rparr>)
   \<and> validate_order (example_order\<lparr>quantity := - 5\<rparr>) = Inr ()
   \<and> fst (submit_order broker_accepts (example_order\<lparr>quantity := - 5\<rparr>) OrderManager_init) =
       Inr (example_order\<lparr>quantity := - 5, status := SUBMITTED\<rparr>)
   \<and> active_orders
       (snd (submit_order broker_accepts (example_order\<lparr>quantity := - 5\<rparr>) OrderManager_init))
       ''ord-1'' = Some (example_order\<lparr>quantity := - 5, status := SUBMITTED\<rparr>)"
  by (simp add: submit_order_def validate_order_def example_order_def broker_accepts_def
        OrderManager_init_def)

text \<open>
  Claim C9, amended. Validation raises a \<open>ValueError\<close> if the symbol is empty or the
  quantity is zero; the test of the quantity is one of truthiness, so a negative quantity
  passes. It also fails if the order type is not one of the recognized kinds: with a
  \<open>ValueError\<close> for a member of another enumeration, and with the \<open>TypeError\<close> of the
  membership test for a value that is no enumeration member. When validation raises,
  \<^verbatim>\<open>submit_order\<close> fails and registers nothing, and the exception of the validation is
  the one that reaches the caller provided the order manager has a logger whose call
  returns. An order that passes is handed to the broker: a failure of the broker is
  treated in the same way, and when the broker returns an order, that order is returned and
  stored in \<^verbatim>\<open>orders\<close> and in \<^verbatim>\<open>active_orders\<close> under its id.
\<close>

theorem submit_order_validation:
  "(symbol order = [] \<or> quantity order = 0 \<longrightarrow>
      validate_order order = Inl (ValueError ''Invalid order parameters''))
   \<and> (symbol order \<noteq> [] \<and> quantity order \<noteq> 0 \<longrightarrow>
        (\<forall>c n. order_type order = OtherEnumMember c n \<longrightarrow>
           validate_order order = Inl (ValueError ''Invalid order type'')) \<and>
        (\<forall>ty. order_type order = NotAnEnum ty \<longrightarrow>
           validate_order order = Inl (TypeError ty)) \<and>
        (\<forall>t. order_type order = Member t \<longrightarrow> validate_order order = Inr ()))
   \<and> (\<forall>e. validate_order order = Inl e \<longrightarrow>
        isl (fst (submit_order broker_submit order om)) \<and>
        snd (submit_order broker_submit order om) = om \<and>
        (\<forall>log_error. logger om = Some log_error \<and>
           log_error ''Order submission error: '' e = None \<longrightarrow>
           submit_order broker_submit order om = (Inl e, om)))
   \<and> (validate_order order = Inr () \<longrightarrow>
        (\<forall>e. broker_submit order = Inl e \<longrightarrow>
           isl (fst (submit_order broker_submit order om)) \<and>
           snd (submit_order broker_submit order om) = om \<and>
           (\<forall>log_error. logger om = Some log_error \<and>
              log_error ''Order submission error: '' e = None \<longrightarrow>
              submit_order broker_submit order om = (Inl e, om))) \<and>
        (\<forall>sub. broker_submit order = Inr sub \<longrightarrow>
           fst (submit_order broker_submit order om) = Inr sub \<and>
           orders (snd (submit_order broker_submit order om)) =
             (orders om)(order_id sub \<mapsto> sub) \<and>
           active_orders (snd (submit_order broker_submit order om)) =
             (active_orders om)(order_id sub \<mapsto> sub) \<and>
           filled_orders (snd (submit_order broker_submit order om)) = filled_orders om))"
proof (intro conjI allI impI)
  fix e
  assume v: "validate_order order = Inl e"
  from submit_order_fails [of order e broker_submit om] v
  show "isl (fst (submit_order broker_submit order om))"
    and "snd (submit_order broker_submit order om) = om"
    by simp_all
next
  fix e log_error
  assume v: "validate_order order = Inl e"
    and l: "logger om = Some log_error \<and> log_error ''Order submission error: '' e = None"
  from l have "log_and_reraise om ''Order submission error: '' e = e"
    by (simp add: log_and_reraise_returns)
  with v show "submit_order broker_submit order om = (Inl e, om)"
    by (simp add: submit_order_def)
next
  fix e
  assume v: "validate_order order = Inr ()" and b: "broker_submit order = Inl e"
  from submit_order_fails [of order e broker_submit om] v b
  show "isl (fst (submit_order broker_submit order om))"
    and "snd (submit_order broker_submit order om) = om"
    by simp_all
next
  fix e log_error
  assume v: "validate_order order = Inr ()" and b: "broker_submit order = Inl e"
    and l: "logger om = Some log_error \<and> log_error ''Order submission error: '' e = None"
  from l have "log_and_reraise om ''Order submission error: '' e = e"
    by (simp add: log_and_reraise_returns)
  with v b show "submit_order broker_submit order om = (Inl e, om)"
    by (simp add: submit_order_def)
qed (simp_all add: validate_order_cases submit_order_def)

text \<open>
  With the quiet logger attached: a quantity of zero, an empty symbol and a member of
  another enumeration are each rejected with the \<open>ValueError\<close> of the validation, and the
  order for ten shares is registered.
\<close>

theorem submit_order_validation_witness:
  "submit_order broker_accepts (example_order\<lparr>quantity := 0\<rparr>) logged_om_init =
     (Inl (ValueError ''Invalid order parameters''), logged_om_init)
   \<and> submit_order broker_accepts (example_order\<lparr>symbol := []\<rparr>) logged_om_init =
     (Inl (ValueError ''Invalid order parameters''), logged_om_init)
   \<and> submit_order broker_accepts
       (example_order\<lparr>order_type := OtherEnumMember ''OrderStatus'' ''FILLED''\<rparr>)
       logged_om_init =
     (Inl (ValueError ''Invalid order type''), logged_om_init)
   \<and> fst (submit_order broker_accepts example_order logged_om_init) =
       Inr (example_order\<lparr>status := SUBMITTED\<rparr>)
   \<and> orders (snd (submit_order broker_accepts example_order logged_om_init)) ''ord-1'' =
       Some (example_order\<lparr>status := SUBMITTED\<rparr>)
   \<and> active_orders (snd (submit_order broker_accepts example_order logged_om_init)) ''ord-1'' =
       Some (example_order\<lparr>status := SUBMITTED\<rparr>)"
proof -
  have lg: "logger logged_om_init = Some quiet_logger"
    and q: "\<And>p e. quiet_logger p e = None"
    by (simp_all add: logged_om_init_def quiet_logger_def)
  have f: "symbol example_order \<noteq> []" "quantity example_order \<noteq> 0"
    "order_type example_order = Member MARKET" "order_id example_order = ''ord-1''"
    by (simp_all add: example_order_def)
  note v0 = submit_order_validation
      [of "example_order\<lparr>quantity := 0\<rparr>" broker_accepts logged_om_init]
  note v1 = submit_order_validation
      [of "example_order\<lparr>symbol := []\<rparr>" broker_accepts logged_om_init]
  note v2 = submit_order_validation
      [of "example_order\<lparr>order_type := OtherEnumMember ''OrderStatus'' ''FILLED''\<rparr>"
          broker_accepts logged_om_init]
  note v3 = submit_order_validation [of example_order broker_accepts logged_om_init]
  have a: "submit_order broker_accepts (example_order\<lparr>quantity := 0\<rparr>) logged_om_init =
     (Inl (ValueError ''Invalid order parameters''), logged_om_init)"
    using v0 lg q by simp
  have b: "submit_order broker_accepts (example_order\<lparr>symbol := []\<rparr>) logged_om_init =
     (Inl (ValueError ''Invalid order parameters''), logged_om_init)"
    using v1 lg q by simp
  have c: "submit_order broker_accepts
       (example_order\<lparr>order_type := OtherEnumMember ''OrderStatus'' ''FILLED''\<rparr>)
       logged_om_init =
     (Inl (ValueError ''Invalid order type''), logged_om_init)"
    using v2 lg q f by simp
  have d: "fst (submit_order broker_accepts example_order logged_om_init) =
       Inr (example_order\<lparr>status := SUBMITTED\<rparr>)
   \<and> orders (snd (submit_order broker_accepts example_order logged_om_init)) ''ord-1'' =
       Some (example_order\<lparr>status := SUBMITTED\<rparr>)
   \<and> active_orders (snd (submit_order broker_accepts example_order logged_om_init)) ''ord-1'' =
       Some (example_order\<lparr>status := SUBMITTED\<rparr>)"
    using v3 f by (simp add: broker_accepts_def)
  from a b c d show ?thesis by blast
qed


lemma cancel_order_inactive:
  "active_orders om oid = None \<Longrightarrow> cancel_order broker_cancel oid om = (Inr False, om)"
  by (simp add: cancel_order_def)

lemma cancel_repeatedly_inactive:
  "active_orders om oid = None \<Longrightarrow>
   cancel_repeatedly broker_cancel oid n om = (replicate n (Inr False), om)"
  by (induction n) (simp_all add: cancel_order_inactive)

lemma cancel_order_True:
  assumes "cancel_order broker_cancel oid om = (Inr True, om')"
  shows "map_option status (orders om' oid) = Some CANCELLED \<and> active_orders om' oid = None"
  using assms
  by (auto simp: cancel_order_def Let_def split: if_splits sum.splits option.splits)

text \<open>
  Claim C2, as the specification states it, at an order that the broker filled on
  submission: the order is \<open>FILLED\<close> and still in \<^verbatim>\<open>active_orders\<close>, so the
  cancel goes through to the broker, returns \<^verbatim>\<open>True\<close> and overwrites the status with
  \<open>CANCELLED\<close>.
\<close>

theorem filled_order_cancelled:
  "map_option status (orders example_om_filled ''ord-1'') = Some FILLED
   \<and> fst (cancel_order broker_cancels ''ord-1'' example_om_filled) = Inr True
   \<and> map_option status
       (orders (snd (cancel_order broker_cancels ''ord-1'' example_om_filled)) ''ord-1'')
       = Some CANCELLED
   \<and> active_orders (snd (cancel_order broker_cancels ''ord-1'' example_om_filled)) ''ord-1''
       \<noteq> active_orders example_om_filled ''ord-1''"
  by (simp add: example_om_filled_def submit_order_def validate_order_def example_order_def
        broker_fills_def OrderManager_init_def cancel_order_def broker_cancels_def Let_def)

text \<open>
  Claim C2, amended. \<^verbatim>\<open>cancel_order\<close> looks at membership in \<^verbatim>\<open>active_orders\<close>,
  not at the status. For an id that is not active, any number of cancel calls return
  \<^verbatim>\<open>False\<close> each time and leave the order manager as it is, whatever the broker would
  answer. Once a cancel has returned \<^verbatim>\<open>True\<close>, the order is \<open>CANCELLED\<close> and no
  longer active, so every later cancel of it returns \<^verbatim>\<open>False\<close> and changes nothing.
\<close>

theorem cancel_inactive_is_noop:
  "(active_orders om oid = None \<longrightarrow>
      cancel_repeatedly broker_cancel oid n om = (replicate n (Inr False), om))
   \<and> (\<forall>om'. cancel_order broker_cancel oid om = (Inr True, om') \<longrightarrow>
        map_option status (orders om' oid) = Some CANCELLED \<and>
        active_orders om' oid = None \<and>
        cancel_repeatedly broker_cancel' oid n om' = (replicate n (Inr False), om'))"
  using cancel_repeatedly_inactive cancel_order_True by blast

text \<open>
  The accepted order is cancelled once with success; three more cancels return
  \<^verbatim>\<open>False\<close> and leave the state as the first cancel left it.
\<close>

theorem cancel_inactive_is_noop_witness:
  "fst (cancel_order broker_cancels ''ord-1'' example_om) = Inr True
   \<and> map_option status (orders (snd (cancel_order broker_cancels ''ord-1'' example_om)) ''ord-1'')
       = Some CANCELLED
   \<and> cancel_repeatedly broker_cancels ''ord-1'' 3
       (snd (cancel_order broker_cancels ''ord-1'' example_om)) =
       ([Inr False, Inr False, Inr False], snd (cancel_order broker_cancels ''ord-1'' example_om))"
proof -
  have c: "fst (cancel_order broker_cancels ''ord-1'' example_om) = Inr True"
    by (simp add: cancel_order_def example_om_eval broker_cancels_def Let_def)
  then have "cancel_order broker_cancels ''ord-1'' example_om =
      (Inr True, snd (cancel_order broker_cancels ''ord-1'' example_om))"
    by (metis prod.collapse)
  with cancel_inactive_is_noop
         [of example_om "''ord-1''" broker_cancels 3 broker_cancels]
  have "map_option status
          (orders (snd (cancel_order broker_cancels ''ord-1'' example_om)) ''ord-1'')
          = Some CANCELLED
      \<and> cancel_repeatedly broker_cancels ''ord-1'' 3
          (snd (cancel_order broker_cancels ''ord-1'' example_om)) =
          (replicate 3 (Inr False), snd (cancel_order broker_cancels ''ord-1'' example_om))"
    by blast
  with c show ?thesis by (simp add: numeral_3_eq_3)
qed

section \<open>Properties of the monitoring loop\<close>

lemma monitor_loop_fault_now:
  "status order \<notin> set [FILLED, CANCELLED, REJECTED] \<Longrightarrow>
   monitor_loop hpf (PollRaises e # rest) order = Some (Inl (e, order))"
  by simp

lemma monitor_execution_uncaught:
  assumes "monitor_loop hpf ticks order = Some (Inl (e, cur))" and "\<not> is_Exception e"
  shows "monitor_execution hpf ticks broker_cancel order om = Some (Inl e, om)"
  using assms by (simp add: monitor_execution_def)

lemma monitor_execution_fault:
  assumes "monitor_loop hpf ticks order = Some (Inl (e, cur))" and "is_Exception e"
  shows "monitor_execution hpf ticks broker_cancel order om =
           (case cancel_order broker_cancel (order_id cur) om of
              (Inl e', om') \<Rightarrow> Some (Inl e', om')
            | (Inr b, om') \<Rightarrow> Some (Inl e, om'))"
  using assms by (simp add: monitor_execution_def)

lemma logged_om_eval:
  "orders logged_om ''ord-1'' = Some (example_order\<lparr>status := SUBMITTED\<rparr>)"
  "active_orders logged_om ''ord-1'' = Some (example_order\<lparr>status := SUBMITTED\<rparr>)"
  "logger logged_om = Some quiet_logger"
  "logger example_om = None"
  by (simp_all add: logged_om_def example_om_eval)
     (simp add: example_om_def submit_order_def validate_order_def example_order_def
        broker_accepts_def OrderManager_init_def)

text \<open>
  Claim C6, as the specification states it, at a poll that fails while the order is
  \<open>SUBMITTED\<close> and a broker that refuses the cancel. With a logger attached to the
  order manager, the caller receives the exception of the cancel; on the order manager as
  its constructor leaves it, the caller receives the \<open>AttributeError\<close> of the handler of
  \<^verbatim>\<open>cancel_order\<close>. Neither is the fault of the poll, and the order is still
  \<open>SUBMITTED\<close>.
\<close>

theorem cancel_failure_masks_fault:
  "monitor_loop no_hook [PollRaises poll_fault] (example_order\<lparr>status := SUBMITTED\<rparr>)
     = Some (Inl (poll_fault, example_order\<lparr>status := SUBMITTED\<rparr>))
   \<and> monitor_execution no_hook [PollRaises poll_fault] broker_cancel_fails
       (example_order\<lparr>status := SUBMITTED\<rparr>) logged_om
     = Some (Inl (Raised ''BrokerError'' ''cancel rejected''), logged_om)
   \<and> Raised ''BrokerError'' ''cancel rejected'' \<noteq> poll_fault
   \<and> map_option status (orders logged_om ''ord-1'') = Some SUBMITTED
   \<and> monitor_execution no_hook [PollRaises poll_fault] broker_cancel_fails
       (example_order\<lparr>status := SUBMITTED\<rparr>) example_om
     = Some (Inl (AttributeError ''OrderManager'' ''logger''), example_om)
   \<and> AttributeError ''OrderManager'' ''logger'' \<noteq> poll_fault
   \<and> map_option status (orders example_om ''ord-1'') = Some SUBMITTED"
  by (simp add: monitor_execution_def cancel_order_def example_om_eval logged_om_eval
        log_and_reraise_def quiet_logger_def
        broker_cancel_fails_def poll_fault_def example_order_def no_hook_def)

text \<open>
  Claim C6, amended. A fault that \<^verbatim>\<open>except Exception\<close> does not catch, such as the
  cancellation of the task, leaves the method as it is, with no cancel. For any other
  fault the handler calls \<^verbatim>\<open>cancel_order\<close> for the order it holds. If that id is not
  active, nothing changes and the fault is raised again to the caller. If it is active and
  the broker cancels, the order leaves \<^verbatim>\<open>active_orders\<close>, its status becomes
  \<open>CANCELLED\<close>, and the fault is raised again to the caller. If \<^verbatim>\<open>cancel_order\<close>
  raises, its exception reaches the caller in place of the fault; provided the order
  manager has a logger whose call returns, that exception is the one the broker raised, or
  the \<open>KeyError\<close> for an id that is missing from \<^verbatim>\<open>orders\<close>.
\<close>

theorem monitor_fault_compensation:
  assumes "monitor_loop hpf ticks order = Some (Inl (e, cur))"
  shows "(\<not> is_Exception e \<longrightarrow>
            monitor_execution hpf ticks broker_cancel order om = Some (Inl e, om))
       \<and> (is_Exception e \<longrightarrow>
          (active_orders om (order_id cur) = None \<longrightarrow>
             monitor_execution hpf ticks broker_cancel order om = Some (Inl e, om))
        \<and> (\<forall>b ord. active_orders om (order_id cur) \<noteq> None \<and>
             broker_cancel (order_id cur) = Inr b \<and> orders om (order_id cur) = Some ord \<longrightarrow>
             monitor_execution hpf ticks broker_cancel order om =
               Some (Inl e,
                     om\<lparr> active_orders := (active_orders om)(order_id cur := None),
                         orders := (orders om)(order_id cur \<mapsto> ord\<lparr>status := CANCELLED\<rparr>) \<rparr>))
        \<and> (\<forall>x. fst (cancel_order broker_cancel (order_id cur) om) = Inl x \<longrightarrow>
             monitor_execution hpf ticks broker_cancel order om =
               Some (Inl x, snd (cancel_order broker_cancel (order_id cur) om)))
        \<and> (\<forall>e' log_error. active_orders om (order_id cur) \<noteq> None \<and>
             broker_cancel (order_id cur) = Inl e' \<and> logger om = Some log_error \<and>
             log_error ''Order cancellation error: '' e' = None \<longrightarrow>
             monitor_execution hpf ticks broker_cancel order om = Some (Inl e', om))
        \<and> (\<forall>b log_error. active_orders om (order_id cur) \<noteq> None \<and>
             broker_cancel (order_id cur) = Inr b \<and> orders om (order_id cur) = None \<and>
             logger om = Some log_error \<and>
             log_error ''Order cancellation error: '' (KeyError (order_id cur)) = None \<longrightarrow>
             monitor_execution hpf ticks broker_cancel order om =
               Some (Inl (KeyError (order_id cur)),
                     om\<lparr> active_orders := (active_orders om)(order_id cur := None) \<rparr>)))"
proof (intro conjI impI allI)
  assume "\<not> is_Exception e"
  with assms show "monitor_execution hpf ticks broker_cancel order om = Some (Inl e, om)"
    by (rule monitor_execution_uncaught)
next
  assume ex: "is_Exception e" and "active_orders om (order_id cur) = None"
  then show "monitor_execution hpf ticks broker_cancel order om = Some (Inl e, om)"
    unfolding monitor_execution_fault [OF assms ex] by (simp add: cancel_order_def)
next
  fix b ord
  assume ex: "is_Exception e"
    and "active_orders om (order_id cur) \<noteq> None \<and>
         broker_cancel (order_id cur) = Inr b \<and> orders om (order_id cur) = Some ord"
  then show "monitor_execution hpf ticks broker_cancel order om =
               Some (Inl e,
                     om\<lparr> active_orders := (active_orders om)(order_id cur := None),
                         orders := (orders om)(order_id cur \<mapsto> ord\<lparr>status := CANCELLED\<rparr>) \<rparr>)"
    unfolding monitor_execution_fault [OF assms ex] by (auto simp: cancel_order_def Let_def)
next
  fix x
  assume ex: "is_Exception e"
    and "fst (cancel_order broker_cancel (order_id cur) om) = Inl x"
  then show "monitor_execution hpf ticks broker_cancel order om =
               Some (Inl x, snd (cancel_order broker_cancel (order_id cur) om))"
    unfolding monitor_execution_fault [OF assms ex]
    by (cases "cancel_order broker_cancel (order_id cur) om") simp
next
  fix e' log_error
  assume ex: "is_Exception e"
    and h: "active_orders om (order_id cur) \<noteq> None \<and>
            broker_cancel (order_id cur) = Inl e' \<and> logger om = Some log_error \<and>
            log_error ''Order cancellation error: '' e' = None"
  from h have "log_and_reraise om ''Order cancellation error: '' e' = e'"
    by (simp add: log_and_reraise_returns)
  with h show "monitor_execution hpf ticks broker_cancel order om = Some (Inl e', om)"
    unfolding monitor_execution_fault [OF assms ex] by (auto simp: cancel_order_def)
next
  fix b log_error
  assume ex: "is_Exception e"
    and h: "active_orders om (order_id cur) \<noteq> None \<and>
            broker_cancel (order_id cur) = Inr b \<and> orders om (order_id cur) = None \<and>
            logger om = Some log_error \<and>
            log_error ''Order cancellation error: '' (KeyError (order_id cur)) = None"
  from h have
    "log_and_reraise (om\<lparr> active_orders := (active_orders om)(order_id cur := None) \<rparr>)
       ''Order cancellation error: '' (KeyError (order_id cur)) = KeyError (order_id cur)"
    by (simp add: log_and_reraise_def)
  with h show "monitor_execution hpf ticks broker_cancel order om =
               Some (Inl (KeyError (order_id cur)),
                     om\<lparr> active_orders := (active_orders om)(order_id cur := None) \<rparr>)"
    unfolding monitor_execution_fault [OF assms ex] by (auto simp: cancel_order_def Let_def)
qed

text \<open>
  One pass returns the order still \<open>SUBMITTED\<close>, the next poll fails. When the broker
  cancels, the order ends \<open>CANCELLED\<close> and the caller receives the fault of the poll;
  when the broker refuses, the caller receives the broker's exception.
\<close>

theorem monitor_fault_compensation_witness:
  "monitor_loop no_hook [Polled (example_order\<lparr>status := SUBMITTED\<rparr>) None, PollRaises poll_fault]
      (example_order\<lparr>status := SUBMITTED\<rparr>)
     = Some (Inl (poll_fault, example_order\<lparr>status := SUBMITTED\<rparr>))
   \<and> is_Exception poll_fault
   \<and> monitor_execution no_hook
       [Polled (example_order\<lparr>status := SUBMITTED\<rparr>) None, PollRaises poll_fault]
       broker_cancels (example_order\<lparr>status := SUBMITTED\<rparr>) logged_om
     = Some (Inl poll_fault,
             logged_om\<lparr> active_orders := (active_orders logged_om)(''ord-1'' := None),
                        orders := (orders logged_om)
                          (''ord-1'' \<mapsto> example_order\<lparr>status := CANCELLED\<rparr>) \<rparr>)
   \<and> monitor_execution no_hook
       [Polled (example_order\<lparr>status := SUBMITTED\<rparr>) None, PollRaises poll_fault]
       broker_cancel_fails (example_order\<lparr>status := SUBMITTED\<rparr>) logged_om
     = Some (Inl (Raised ''BrokerError'' ''cancel rejected''), logged_om)"
proof -
  let ?o = "example_order\<lparr>status := SUBMITTED\<rparr>"
  let ?ticks = "[Polled ?o None, PollRaises poll_fault]"
  have loop: "monitor_loop no_hook ?ticks ?o = Some (Inl (poll_fault, ?o))"
    by (simp add: example_order_def no_hook_def)
  have ex: "is_Exception poll_fault" by (simp add: poll_fault_def)
  have id: "order_id ?o = ''ord-1''" by (simp add: example_order_def)
  have ok: "monitor_execution no_hook ?ticks broker_cancels ?o logged_om
     = Some (Inl poll_fault,
             logged_om\<lparr> active_orders := (active_orders logged_om)(''ord-1'' := None),
                        orders := (orders logged_om)
                          (''ord-1'' \<mapsto> ?o\<lparr>status := CANCELLED\<rparr>) \<rparr>)"
    using monitor_fault_compensation [OF loop, of broker_cancels logged_om] ex
    by (auto simp: id logged_om_eval broker_cancels_def)
  have ko: "monitor_execution no_hook ?ticks broker_cancel_fails ?o logged_om
     = Some (Inl (Raised ''BrokerError'' ''cancel rejected''), logged_om)"
    using monitor_fault_compensation [OF loop, of broker_cancel_fails logged_om] ex
    by (auto simp: id logged_om_eval broker_cancel_fails_def quiet_logger_def)
  from loop ex ok ko show ?thesis by simp
qed

end
